theory Spec2Isabelle
  imports Main "HOL-Library.Word"
begin

unbundle bit_operations_syntax

section \<open>Strings and values of the runtime\<close>

text \<open>
  A string of the source language is a finite sequence of 16-bit code units.
  Literals of the source are written \<open>js ''...''\<close>.
\<close>

type_synonym code_unit = "16 word"

type_synonym jsstring = "code_unit list"

definition js :: "string \<Rightarrow> jsstring" where
  "js s = map of_char s"

text \<open>
  \<^verbatim>\<open>String.prototype.trim\<close> removes, at both ends, the code units of the
  language's WhiteSpace and LineTerminator productions: TAB, VT, FF, SP, NBSP,
  ZWNBSP, the Unicode space separators (U+1680, U+2000 to U+200A, U+202F, U+205F,
  U+3000), and LF, CR, LS, PS.
\<close>

definition is_trim_space :: "code_unit \<Rightarrow> bool" where
  "is_trim_space c =
     (c = 0x0009 \<or> c = 0x000A \<or> c = 0x000B \<or> c = 0x000C \<or> c = 0x000D \<or> c = 0x0020
      \<or> c = 0x00A0 \<or> c = 0x1680 \<or> (0x2000 \<le> c \<and> c \<le> 0x200A) \<or> c = 0x2028
      \<or> c = 0x2029 \<or> c = 0x202F \<or> c = 0x205F \<or> c = 0x3000 \<or> c = 0xFEFF)"

definition trim :: "jsstring \<Rightarrow> jsstring" where
  "trim s = rev (dropWhile is_trim_space (rev (dropWhile is_trim_space s)))"

text \<open>
  \<^verbatim>\<open>s.split(sep)\<close> for a separator of one code unit: the pieces between the
  occurrences of the separator, in order. The result is never empty:
  \<^verbatim>\<open>"".split(",")\<close> is \<^verbatim>\<open>[""]\<close>.
\<close>

fun split :: "code_unit \<Rightarrow> jsstring \<Rightarrow> jsstring list" where
  "split sep [] = [[]]"
| "split sep (c # cs) =
     (if c = sep then [] # split sep cs
      else (case split sep cs of
              [] \<Rightarrow> [[c]]
            | piece # pieces \<Rightarrow> (c # piece) # pieces))"

text \<open>
  \<^verbatim>\<open>s.split(sep, limit)\<close> splits as above and keeps the first \<open>limit\<close>
  pieces; what follows them is dropped, not joined to the last piece.
\<close>

definition split_limit :: "code_unit \<Rightarrow> nat \<Rightarrow> jsstring \<Rightarrow> jsstring list" where
  "split_limit sep limit s = take limit (split sep s)"

text \<open>Thrown values: \<^verbatim>\<open>new Error(message)\<close>, the errors of the runtime's
  built-in functions, and the rejection of a failed child process.\<close>

datatype js_error =
    Error jsstring
  | SyntaxError
  | TypeError
  | ChildProcessError

text \<open>
  The values \<^verbatim>\<open>JSON.parse\<close> returns. An object is the list of its members in
  the order of the text; of two members with one key the later one is the
  property's value. A number is kept as its lexeme (the runtime holds the double
  nearest to it).
\<close>

datatype json =
    JNull
  | JBool bool
  | JNumber jsstring
  | JString jsstring
  | JArray "json list"
  | JObject "(jsstring \<times> json) list"

text \<open>The own property \<open>key\<close> of an object built by \<^verbatim>\<open>JSON.parse\<close>;
  \<open>None\<close> is \<^verbatim>\<open>undefined\<close>.\<close>

definition own_property :: "(jsstring \<times> json) list \<Rightarrow> jsstring \<Rightarrow> json option" where
  "own_property members key = map_of (rev members) key"

text \<open>
  The expression \<^verbatim>\<open>msg.message_type\<close>. Reading a property of \<^verbatim>\<open>null\<close>
  throws a TypeError; booleans, numbers, strings and arrays have no property of
  that name, own or inherited; an object has it when it is one of its members.
\<close>

fun message_type :: "json \<Rightarrow> js_error + json option" where
  "message_type JNull = Inl TypeError"
| "message_type (JObject members) = Inr (own_property members (js ''message_type''))"
| "message_type _ = Inr None"

section \<open>A model of \<^verbatim>\<open>JSON.parse\<close>\<close>

text \<open>
  \<^verbatim>\<open>JSON.parse\<close> belongs to the runtime, not to the program. The functions of
  the program take it as a parameter \<open>parse\<close>, and their theorems hold for every
  such function. \<open>JSON_parse\<close> below follows the JSON grammar (ECMA-404) and is
  what the concrete examples run.
\<close>

type_synonym parser = "jsstring \<Rightarrow> js_error + json"

definition json_ws :: "code_unit \<Rightarrow> bool" where
  "json_ws c = (c = 0x20 \<or> c = 0x09 \<or> c = 0x0A \<or> c = 0x0D)"

definition is_digit :: "code_unit \<Rightarrow> bool" where
  "is_digit c = (0x30 \<le> c \<and> c \<le> 0x39)"

definition hex_digit :: "code_unit \<Rightarrow> code_unit option" where
  "hex_digit c =
     (if 0x30 \<le> c \<and> c \<le> 0x39 then Some (c - 0x30)
      else if 0x41 \<le> c \<and> c \<le> 0x46 then Some (c - 0x37)
      else if 0x61 \<le> c \<and> c \<le> 0x66 then Some (c - 0x57)
      else None)"

definition escape_char :: "code_unit \<Rightarrow> code_unit option" where
  "escape_char c =
     (if c = 0x22 \<or> c = 0x5C \<or> c = 0x2F then Some c
      else if c = 0x62 then Some 0x08
      else if c = 0x66 then Some 0x0C
      else if c = 0x6E then Some 0x0A
      else if c = 0x72 then Some 0x0D
      else if c = 0x74 then Some 0x09
      else None)"

definition strip_prefix :: "jsstring \<Rightarrow> jsstring \<Rightarrow> jsstring option" where
  "strip_prefix p s = (if take (length p) s = p then Some (drop (length p) s) else None)"

text \<open>The characters of a string literal after its opening quote, up to the
  closing quote; \<open>acc\<close> holds the decoded code units, last first.\<close>

fun json_string :: "jsstring \<Rightarrow> jsstring \<Rightarrow> (jsstring \<times> jsstring) option" where
  "json_string acc [] = None"
| "json_string acc (c # cs) =
     (if c = 0x22 then Some (rev acc, cs)
      else if c = 0x5C then
        (case cs of
           [] \<Rightarrow> None
         | e # r \<Rightarrow>
             if e = 0x75 then
               (case r of
                  h1 # h2 # h3 # h4 # r' \<Rightarrow>
                    (case (hex_digit h1, hex_digit h2, hex_digit h3, hex_digit h4) of
                       (Some a, Some b, Some c', Some d) \<Rightarrow>
                         json_string ((a * 0x1000 + b * 0x100 + c' * 0x10 + d) # acc) r'
                     | _ \<Rightarrow> None)
                | _ \<Rightarrow> None)
             else
               (case escape_char e of
                  None \<Rightarrow> None
                | Some x \<Rightarrow> json_string (x # acc) r))
      else if c < 0x20 then None
      else json_string (c # acc) cs)"

text \<open>A run of digits that must not be empty.\<close>

definition json_digits :: "jsstring \<Rightarrow> (jsstring \<times> jsstring) option" where
  "json_digits s =
     (if takeWhile is_digit s = [] then None
      else Some (takeWhile is_digit s, dropWhile is_digit s))"

definition json_int :: "jsstring \<Rightarrow> (jsstring \<times> jsstring) option" where
  "json_int s =
     (case s of
        [] \<Rightarrow> None
      | c # cs \<Rightarrow> if c = 0x30 then Some ([c], cs) else json_digits s)"

definition json_frac :: "jsstring \<Rightarrow> (jsstring \<times> jsstring) option" where
  "json_frac s =
     (case s of
        [] \<Rightarrow> Some ([], s)
      | c # cs \<Rightarrow>
          if c = 0x2E then map_option (\<lambda>(ds, r). (c # ds, r)) (json_digits cs)
          else Some ([], s))"

definition json_exp :: "jsstring \<Rightarrow> (jsstring \<times> jsstring) option" where
  "json_exp s =
     (case s of
        [] \<Rightarrow> Some ([], s)
      | c # cs \<Rightarrow>
          if c = 0x65 \<or> c = 0x45 then
            (case cs of
               [] \<Rightarrow> None
             | g # gs \<Rightarrow>
                 if g = 0x2B \<or> g = 0x2D
                 then map_option (\<lambda>(ds, r). (c # g # ds, r)) (json_digits gs)
                 else map_option (\<lambda>(ds, r). (c # ds, r)) (json_digits cs))
          else Some ([], s))"

definition json_number :: "jsstring \<Rightarrow> (jsstring \<times> jsstring) option" where
  "json_number s =
     (let (sign, s1) = (case s of [] \<Rightarrow> ([], s) | c # cs \<Rightarrow> if c = 0x2D then ([c], cs) else ([], s))
      in case json_int s1 of
           None \<Rightarrow> None
         | Some (ip, s2) \<Rightarrow>
             (case json_frac s2 of
                None \<Rightarrow> None
              | Some (fp, s3) \<Rightarrow>
                  (case json_exp s3 of
                     None \<Rightarrow> None
                   | Some (ep, s4) \<Rightarrow> Some (sign @ ip @ fp @ ep, s4))))"

text \<open>
  Values, the elements of an array after \<^verbatim>\<open>[\<close> or \<^verbatim>\<open>,\<close> and the members of
  an object after \<^verbatim>\<open>{\<close> or \<^verbatim>\<open>,\<close>. The first argument bounds the number of
  nested calls; \<open>JSON_parse\<close> starts with twice the length of the text plus two.
\<close>

fun json_value :: "nat \<Rightarrow> jsstring \<Rightarrow> (json \<times> jsstring) option"
  and json_elements :: "nat \<Rightarrow> json list \<Rightarrow> jsstring \<Rightarrow> (json list \<times> jsstring) option"
  and json_members ::
    "nat \<Rightarrow> (jsstring \<times> json) list \<Rightarrow> jsstring \<Rightarrow> ((jsstring \<times> json) list \<times> jsstring) option"
where
  "json_value 0 s = None"
| "json_value (Suc n) s =
     (case dropWhile json_ws s of
        [] \<Rightarrow> None
      | c # cs \<Rightarrow>
          if c = 0x7B then
            (case dropWhile json_ws cs of
               [] \<Rightarrow> None
             | d # ds \<Rightarrow>
                 if d = 0x7D then Some (JObject [], ds)
                 else map_option (\<lambda>(ms, r). (JObject ms, r)) (json_members n [] (d # ds)))
          else if c = 0x5B then
            (case dropWhile json_ws cs of
               [] \<Rightarrow> None
             | d # ds \<Rightarrow>
                 if d = 0x5D then Some (JArray [], ds)
                 else map_option (\<lambda>(vs, r). (JArray vs, r)) (json_elements n [] (d # ds)))
          else if c = 0x22 then map_option (\<lambda>(str, r). (JString str, r)) (json_string [] cs)
          else if c = 0x74 then map_option (\<lambda>r. (JBool True, r)) (strip_prefix (js ''true'') (c # cs))
          else if c = 0x66 then map_option (\<lambda>r. (JBool False, r)) (strip_prefix (js ''false'') (c # cs))
          else if c = 0x6E then map_option (\<lambda>r. (JNull, r)) (strip_prefix (js ''null'') (c # cs))
          else map_option (\<lambda>(lexeme, r). (JNumber lexeme, r)) (json_number (c # cs)))"
| "json_elements 0 acc s = None"
| "json_elements (Suc n) acc s =
     (case json_value n s of
        None \<Rightarrow> None
      | Some (v, r) \<Rightarrow>
          (case dropWhile json_ws r of
             [] \<Rightarrow> None
           | c # cs \<Rightarrow>
               if c = 0x2C then json_elements n (acc @ [v]) cs
               else if c = 0x5D then Some (acc @ [v], cs)
               else None))"
| "json_members 0 acc s = None"
| "json_members (Suc n) acc s =
     (case dropWhile json_ws s of
        [] \<Rightarrow> None
      | q # qs \<Rightarrow>
          if q \<noteq> 0x22 then None
          else
            (case json_string [] qs of
               None \<Rightarrow> None
             | Some (k, r) \<Rightarrow>
                 (case dropWhile json_ws r of
                    [] \<Rightarrow> None
                  | d # ds \<Rightarrow>
                      if d \<noteq> 0x3A then None
                      else
                        (case json_value n ds of
                           None \<Rightarrow> None
                         | Some (v, r') \<Rightarrow>
                             (case dropWhile json_ws r' of
                                [] \<Rightarrow> None
                              | e # es \<Rightarrow>
                                  if e = 0x2C then json_members n (acc @ [(k, v)]) es
                                  else if e = 0x7D then Some (acc @ [(k, v)], es)
                                  else None)))))"

definition JSON_parse :: parser where
  "JSON_parse text =
     (case json_value (2 * length text + 2) text of
        None \<Rightarrow> Inl SyntaxError
      | Some (v, r) \<Rightarrow> if dropWhile json_ws r = [] then Inr v else Inl SyntaxError)"

section \<open>The summary parser\<close>

text \<open>
  \<^verbatim>\<open>parseResticSummary\<close> (main.js, lines 342 to 355). The body of the
  \<^verbatim>\<open>try\<close> block either returns \<open>msg\<close> from the function (\<open>Inr (Some msg)\<close>),
  or falls through to the next line (\<open>Inr None\<close>), or throws (\<open>Inl\<close>); the
  \<^verbatim>\<open>catch\<close> clause takes every thrown value and continues with the next line.
\<close>

definition parseResticSummary_try :: "parser \<Rightarrow> jsstring \<Rightarrow> js_error + json option" where
  "parseResticSummary_try parse line =
     (case parse line of
        Inl e \<Rightarrow> Inl e
      | Inr msg \<Rightarrow>
          (case message_type msg of
             Inl e \<Rightarrow> Inl e
           | Inr t \<Rightarrow> if t = Some (JString (js ''summary'')) then Inr (Some msg) else Inr None))"

fun parseResticSummary_loop :: "parser \<Rightarrow> jsstring list \<Rightarrow> js_error + json" where
  "parseResticSummary_loop parse [] = Inl (Error (js ''No summary found in restic output''))"
| "parseResticSummary_loop parse (line # lines) =
     (case parseResticSummary_try parse line of
        Inr (Some msg) \<Rightarrow> Inr msg
      | Inr None \<Rightarrow> parseResticSummary_loop parse lines
      | Inl e \<Rightarrow> parseResticSummary_loop parse lines)"

definition parseResticSummary :: "parser \<Rightarrow> jsstring \<Rightarrow> js_error + json" where
  "parseResticSummary parse stdout =
     (let lines = split 0x0A (trim stdout)
      in parseResticSummary_loop parse lines)"

section \<open>Child processes\<close>

text \<open>
  An environment object maps variable names to values. A value read from an
  array that is too short is \<^verbatim>\<open>undefined\<close>, and \<^verbatim>\<open>getShellEnv\<close> stores such
  values, so a value is a string or \<open>Undefined\<close>. The file a call of
  \<^verbatim>\<open>execFile\<close> names is a string or \<^verbatim>\<open>null\<close> (\<open>None\<close>).
\<close>

datatype env_value = Undefined | Str jsstring

type_synonym environ = "jsstring \<rightharpoonup> env_value"

record invocation =
  exec_file :: "jsstring option"
  exec_args :: "jsstring list"
  exec_env :: environ

text \<open>
  Before it starts a child, \<^verbatim>\<open>execFile\<close> checks the file it is given: for
  \<^verbatim>\<open>null\<close> and for the empty string it throws a TypeError
  (\<^verbatim>\<open>ERR_INVALID_ARG_TYPE\<close>, \<^verbatim>\<open>ERR_INVALID_ARG_VALUE\<close>), and no child exists.
\<close>

definition execFile_file_error :: "jsstring option \<Rightarrow> js_error option" where
  "execFile_file_error f =
     (case f of
        None \<Rightarrow> Some TypeError
      | Some path \<Rightarrow> if path = [] then Some TypeError else None)"

text \<open>
  The promisified \<^verbatim>\<open>child_process.execFile\<close>. Every call is appended, with its
  arguments, to the list of calls; a list of calls that has not grown says that
  no child was started. A call whose file fails the check above is rejected with
  that error and starts no child. What happens to any other call is outside the
  program: \<open>os\<close> gives, for the calls made so far and the new one, either the
  rejection (the runtime refuses another argument, the executable is missing,
  the exit code is not zero) or the text the child wrote to its standard output.
\<close>

type_synonym os = "invocation list \<Rightarrow> invocation \<Rightarrow> js_error + jsstring"

definition execFile ::
  "os \<Rightarrow> jsstring option \<Rightarrow> jsstring list \<Rightarrow> environ \<Rightarrow> invocation list
     \<Rightarrow> (js_error + jsstring) \<times> invocation list" where
  "execFile os f as e calls =
     (let i = \<lparr>exec_file = f, exec_args = as, exec_env = e\<rparr>
      in case execFile_file_error f of
           Some err \<Rightarrow> (Inl err, calls @ [i])
         | None \<Rightarrow> (os calls i, calls @ [i]))"

section \<open>The environment of the login shell\<close>

text \<open>
  \<^verbatim>\<open>assert(value, message)\<close> (lines 399 to 402) for a value read from the
  environment: it throws when the value is falsy, that is \<^verbatim>\<open>undefined\<close> (the
  variable is not there) or the empty string.
\<close>

definition assert :: "env_value option \<Rightarrow> jsstring \<Rightarrow> js_error + jsstring" where
  "assert v message =
     (case v of
        None \<Rightarrow> Inl (Error message)
      | Some Undefined \<Rightarrow> Inl (Error message)
      | Some (Str s) \<Rightarrow> if s = [] then Inl (Error message) else Inr s)"

text \<open>
  One turn of the loop of \<^verbatim>\<open>getShellEnv\<close> (lines 387 to 390):
  \<^verbatim>\<open>const [key, value] = line.split("=", 2); if (key) env[key] = value;\<close>
  The array has one or two elements; \<open>value\<close> is \<^verbatim>\<open>undefined\<close> when it has
  one. The assignment makes or replaces an own property, except for the key
  \<^verbatim>\<open>__proto__\<close>: that one reaches the setter inherited by every object literal,
  which ignores a string and \<^verbatim>\<open>undefined\<close>.
\<close>

definition getShellEnv_line :: "environ \<Rightarrow> jsstring \<Rightarrow> environ" where
  "getShellEnv_line e line =
     (case split_limit 0x3D 2 line of
        [] \<Rightarrow> e
      | key # rest \<Rightarrow>
          (let v = (case rest of [] \<Rightarrow> Undefined | x # _ \<Rightarrow> Str x)
           in if key \<noteq> [] then (if key = js ''__proto__'' then e else e(key \<mapsto> v)) else e))"

definition getShellEnv_parse :: "jsstring \<Rightarrow> environ" where
  "getShellEnv_parse stdout = foldl getShellEnv_line Map.empty (split 0x0A stdout)"

text \<open>\<^verbatim>\<open>getShellEnv\<close> (lines 379 to 392); \<open>penv\<close> is \<^verbatim>\<open>process.env\<close>.\<close>

definition getShellEnv ::
  "os \<Rightarrow> environ \<Rightarrow> invocation list \<Rightarrow> (js_error + environ) \<times> invocation list" where
  "getShellEnv os penv calls =
     (case assert (penv (js ''SHELL'')) (js ''SHELL environment variable is set'') of
        Inl e \<Rightarrow> (Inl e, calls)
      | Inr shell \<Rightarrow>
          (case execFile os (Some shell) [js ''-l'', js ''-c'', js ''env''] penv calls of
             (Inl e, calls') \<Rightarrow> (Inl e, calls')
           | (Inr stdout, calls') \<Rightarrow> (Inr (getShellEnv_parse stdout), calls')))"

section \<open>Locating the binary\<close>

text \<open>
  \<^verbatim>\<open>detectRestic\<close> (lines 362 to 372). The call of \<^verbatim>\<open>getShellEnv\<close> stands
  before the \<^verbatim>\<open>try\<close> block; the block holds the lookup and the trimming.
  \<open>None\<close> is the result \<^verbatim>\<open>null\<close>.
\<close>

definition detectRestic ::
  "os \<Rightarrow> environ \<Rightarrow> invocation list \<Rightarrow> (js_error + jsstring option) \<times> invocation list" where
  "detectRestic os penv calls =
     (case getShellEnv os penv calls of
        (Inl e, calls') \<Rightarrow> (Inl e, calls')
      | (Inr shell_env, calls') \<Rightarrow>
          (case execFile os (Some (js ''which'')) [js ''restic''] shell_env calls' of
             (Inl e, calls'') \<Rightarrow> (Inr None, calls'')
           | (Inr stdout, calls'') \<Rightarrow>
               (let result = trim stdout
                in (Inr (if result = [] then None else Some result), calls''))))"

section \<open>The backup run\<close>

text \<open>
  The settings \<^verbatim>\<open>resticBackup\<close> reads (lines 29 to 37). The path of the binary
  is a string or \<^verbatim>\<open>null\<close> (\<open>None\<close>): its default is the empty string (line 10),
  and \<^verbatim>\<open>loadSettings\<close> stores in it what \<^verbatim>\<open>detectRestic\<close> returns (lines 105
  and 106).
\<close>

record settings =
  resticBinPath :: "jsstring option"
  resticRepository :: jsstring
  resticPasswordFile :: jsstring
  resticPasswordCommand :: jsstring
  resticTags :: jsstring

text \<open>The environment of the child (lines 161 to 171).\<close>

definition resticBackup_env :: "settings \<Rightarrow> environ \<Rightarrow> environ" where
  "resticBackup_env st penv =
     (let e = penv(js ''RESTIC_REPOSITORY'' \<mapsto> Str (resticRepository st));
          e = (if resticPasswordFile st \<noteq> []
               then e(js ''RESTIC_PASSWORD_FILE'' \<mapsto> Str (resticPasswordFile st)) else e);
          e = (if resticPasswordCommand st \<noteq> []
               then e(js ''RESTIC_PASSWORD_COMMAND'' \<mapsto> Str (resticPasswordCommand st)) else e)
      in e)"

text \<open>The list of tags (line 189) and the arguments (lines 178 to 195);
  \<open>basePath\<close> is what \<^verbatim>\<open>adapter.getBasePath()\<close> returns.\<close>

definition resticBackup_tags :: "jsstring \<Rightarrow> jsstring list" where
  "resticBackup_tags tagString = map trim (split 0x2C tagString)"

definition resticBackup_args :: "settings \<Rightarrow> jsstring \<Rightarrow> jsstring list" where
  "resticBackup_args st basePath =
     (let as = [js ''backup'', basePath, js ''--json'', js ''--skip-if-unchanged'']
      in if resticTags st \<noteq> [] then
           (let tags = resticBackup_tags (resticTags st)
            in if length tags > 0 then foldl (\<lambda>as tag. as @ [js ''--tag'', tag]) as tags else as)
         else as)"

text \<open>
  \<^verbatim>\<open>resticBackup\<close> up to its only \<^verbatim>\<open>await\<close> (lines 154 to 197): the check of
  the repository, then the child's environment and arguments. It runs without
  interruption when the function is called.
\<close>

definition resticBackup_prepare :: "settings \<Rightarrow> environ \<Rightarrow> jsstring \<Rightarrow> js_error + invocation" where
  "resticBackup_prepare st penv basePath =
     (if resticRepository st = [] then Inl (Error (js ''Restic repository not configured''))
      else Inr \<lparr>exec_file = resticBinPath st,
                exec_args = resticBackup_args st basePath,
                exec_env = resticBackup_env st penv\<rparr>)"

text \<open>\<^verbatim>\<open>resticBackup\<close> (lines 153 to 201), run to its end.\<close>

definition resticBackup ::
  "parser \<Rightarrow> os \<Rightarrow> settings \<Rightarrow> environ \<Rightarrow> jsstring \<Rightarrow> invocation list
     \<Rightarrow> (js_error + json) \<times> invocation list" where
  "resticBackup parse os st penv basePath calls =
     (case resticBackup_prepare st penv basePath of
        Inl e \<Rightarrow> (Inl e, calls)
      | Inr i \<Rightarrow>
          (case execFile os (exec_file i) (exec_args i) (exec_env i) calls of
             (Inl e, calls') \<Rightarrow> (Inl e, calls')
           | (Inr stdout, calls') \<Rightarrow> (parseResticSummary parse stdout, calls')))"

section \<open>Overlapping runs\<close>







section \<open>Terms of the specification\<close>

text \<open>
  A line that parses as a summary record: the parser returns a value for it, and
  the discriminator \<^verbatim>\<open>message_type\<close> of that value is the string
  \<^verbatim>\<open>summary\<close>.
\<close>

definition summary_line :: "parser \<Rightarrow> jsstring \<Rightarrow> bool" where
  "summary_line parse line =
     (case parse line of
        Inl e \<Rightarrow> False
      | Inr msg \<Rightarrow> message_type msg = Inr (Some (JString (js ''summary''))))"

text \<open>The pieces of a text put together again, with the separator between
  them: what splitting undoes.\<close>

fun join :: "code_unit \<Rightarrow> jsstring list \<Rightarrow> jsstring" where
  "join sep [] = []"
| "join sep [piece] = piece"
| "join sep (piece # next # pieces) = piece @ sep # join sep (next # pieces)"

text \<open>
  Three machines for the examples. On the first, \<^verbatim>\<open>which\<close> fails and every
  other command prints the given text; on the second every command prints the
  given text; on the third every command fails.
\<close>

definition os_without_restic :: "jsstring \<Rightarrow> os" where
  "os_without_restic out calls i =
     (if exec_file i = Some (js ''which'') then Inl ChildProcessError else Inr out)"

definition os_printing :: "jsstring \<Rightarrow> os" where
  "os_printing out calls i = Inr out"

definition os_failing :: os where
  "os_failing calls i = Inl ChildProcessError"


section \<open>Splitting and trimming\<close>

lemma split_not_Nil: "split sep s \<noteq> []"
  by (induction s) (auto split: list.splits)

lemma split_pieces: "piece \<in> set (split sep s) \<Longrightarrow> sep \<notin> set piece"
  by (induction s arbitrary: piece) (auto split: list.splits if_splits)

lemma split_join: "join sep (split sep s) = s"
proof (induction s)
  case Nil
  show ?case by simp
next
  case (Cons c cs)
  obtain piece pieces where ps: "split sep cs = piece # pieces"
    using split_not_Nil [of sep cs] by (cases "split sep cs") auto
  show ?case
  proof (cases "c = sep")
    case True
    with Cons ps show ?thesis by simp
  next
    case False
    with Cons ps show ?thesis by (cases pieces) auto
  qed
qed

lemma split_first: "sep \<notin> set k \<Longrightarrow> split sep (k @ sep # v) = k # split sep v"
  by (induction k) auto

lemma split_no_sep: "sep \<notin> set k \<Longrightarrow> split sep k = [k]"
  by (induction k) auto

lemma hd_split: "hd (split sep v) = takeWhile (\<lambda>c. c \<noteq> sep) v"
  by (induction v) (auto split: list.splits simp: split_not_Nil)

text \<open>What is left of a trimmed string neither starts nor ends with white
  space, and what was taken away at either end is white space only.\<close>

lemma trim_ends:
  assumes "trim s \<noteq> []"
  shows "\<not> is_trim_space (hd (trim s)) \<and> \<not> is_trim_space (last (trim s))"
proof -
  define d where "d = dropWhile is_trim_space s"
  define r where "r = dropWhile is_trim_space (rev d)"
  have t: "trim s = rev r" by (simp add: trim_def d_def r_def)
  with assms have ne: "r \<noteq> []" by simp
  have "\<not> is_trim_space (hd r)" using ne unfolding r_def by (rule hd_dropWhile)
  with ne have l: "\<not> is_trim_space (last (trim s))" by (simp add: t last_rev)
  have "rev d = takeWhile is_trim_space (rev d) @ r" by (simp add: r_def)
  then have "rev (rev d) = rev (takeWhile is_trim_space (rev d) @ r)" by (rule arg_cong)
  then have dr: "d = rev r @ rev (takeWhile is_trim_space (rev d))"
    by (simp only: rev_rev_ident rev_append)
  with ne have dne: "d \<noteq> []" by auto
  then have "\<not> is_trim_space (hd d)" unfolding d_def by (rule hd_dropWhile)
  moreover from dr ne have "hd d = hd (rev r)" by (metis hd_append2 rev_is_Nil_conv)
  ultimately show ?thesis using l by (simp add: t)
qed

lemma trim_inside:
  "\<exists>before after. s = before @ trim s @ after \<and>
     (\<forall>c \<in> set before. is_trim_space c) \<and> (\<forall>c \<in> set after. is_trim_space c)"
proof -
  define d where "d = dropWhile is_trim_space s"
  define r where "r = dropWhile is_trim_space (rev d)"
  have t: "trim s = rev r" by (simp add: trim_def d_def r_def)
  have "rev d = takeWhile is_trim_space (rev d) @ r" by (simp add: r_def)
  then have "rev (rev d) = rev (takeWhile is_trim_space (rev d) @ r)" by (rule arg_cong)
  then have dr: "d = rev r @ rev (takeWhile is_trim_space (rev d))"
    by (simp only: rev_rev_ident rev_append)
  have "s = takeWhile is_trim_space s @ d" by (simp add: d_def)
  with dr t have "s = takeWhile is_trim_space s @ trim s @ rev (takeWhile is_trim_space (rev d))"
    by simp
  moreover have "\<forall>c \<in> set (takeWhile is_trim_space s). is_trim_space c"
    by (auto dest: set_takeWhileD)
  moreover have "\<forall>c \<in> set (rev (takeWhile is_trim_space (rev d))). is_trim_space c"
    by (auto dest: set_takeWhileD)
  ultimately show ?thesis by blast
qed

text \<open>So trimming a text that is white space, then a core that neither starts nor
  ends with white space, then white space, gives the core.\<close>

lemma trim_core:
  assumes b: "\<forall>c \<in> set before. is_trim_space c"
    and a: "\<forall>c \<in> set after. is_trim_space c"
    and c: "core = [] \<or> (\<not> is_trim_space (hd core) \<and> \<not> is_trim_space (last core))"
  shows "trim (before @ core @ after) = core"
proof (cases "core = []")
  case True
  with a b show ?thesis by (auto simp: trim_def dest: set_dropWhileD)
next
  case False
  with c have h: "\<not> is_trim_space (hd core)" and l: "\<not> is_trim_space (last core)" by simp_all
  from False h have 1: "dropWhile is_trim_space (core @ after) = core @ after"
    by (cases core) simp_all
  from b have 2: "dropWhile is_trim_space (before @ core @ after) =
      dropWhile is_trim_space (core @ after)"
    by (intro dropWhile_append2) simp
  from False l have 3: "dropWhile is_trim_space (rev core) = rev core"
    by (cases "rev core") (simp_all add: last_rev [symmetric] hd_rev)
  from a have 4: "dropWhile is_trim_space (rev after @ rev core) =
      dropWhile is_trim_space (rev core)"
    by (intro dropWhile_append2) simp
  have "trim (before @ core @ after) =
      rev (dropWhile is_trim_space (rev (dropWhile is_trim_space (before @ core @ after))))"
    by (simp only: trim_def)
  also have "\<dots> = rev (dropWhile is_trim_space (rev after @ rev core))"
    by (simp only: 1 2 rev_append)
  also have "\<dots> = core"
    by (simp only: 3 4 rev_rev_ident)
  finally show ?thesis .
qed

section \<open>The loop of the summary parser\<close>

lemma try_not_summary_line:
  "\<not> summary_line parse line \<Longrightarrow> parseResticSummary_try parse line \<noteq> Inr (Some msg)"
  by (auto simp: summary_line_def parseResticSummary_try_def split: sum.splits if_splits)

lemma loop_skips:
  "\<forall>line \<in> set pre. \<not> summary_line parse line \<Longrightarrow>
     parseResticSummary_loop parse (pre @ rest) = parseResticSummary_loop parse rest"
proof (induction pre)
  case Nil
  show ?case by simp
next
  case (Cons line pre)
  from Cons.prems have "\<not> summary_line parse line" by simp
  then have "\<And>msg. parseResticSummary_try parse line \<noteq> Inr (Some msg)"
    by (rule try_not_summary_line)
  with Cons show ?case
    by (auto split: sum.splits option.splits)
qed

lemma loop_returns:
  "summary_line parse line \<Longrightarrow> parseResticSummary_loop parse (line # rest) = parse line"
  by (auto simp: summary_line_def parseResticSummary_try_def split: sum.splits)

lemma loop_total:
  "(\<exists>msg. parseResticSummary_loop parse lines = Inr msg \<and>
      message_type msg = Inr (Some (JString (js ''summary'')))) \<or>
   parseResticSummary_loop parse lines = Inl (Error (js ''No summary found in restic output''))"
  by (induction lines)
     (auto simp: parseResticSummary_try_def split: sum.splits option.splits if_splits)

section \<open>Claims about the summary parser\<close>

text \<open>
  C3, as the code has it. \<^verbatim>\<open>parseResticSummary\<close> trims the whole output before
  it splits it into lines. The output is white space (\<open>before\<close>), then a core
  that neither starts nor ends with white space, then white space (\<open>after\<close>);
  white space is everything \<^verbatim>\<open>String.prototype.trim\<close> removes, line feeds, a
  byte order mark and a no-break space included. When no line of the core parses
  as a summary record, the empty output included, the function throws the error
  "No summary found in restic output"; it returns nothing.
\<close>

theorem parseResticSummary_no_summary:
  assumes "stdout = before @ core @ after"
    and "\<forall>c \<in> set before. is_trim_space c"
    and "\<forall>c \<in> set after. is_trim_space c"
    and "core = [] \<or> (\<not> is_trim_space (hd core) \<and> \<not> is_trim_space (last core))"
    and "\<forall>line \<in> set (split 0x0A core). \<not> summary_line parse line"
  shows "parseResticSummary parse stdout = Inl (Error (js ''No summary found in restic output''))"
proof -
  from assms(1-4) have "trim stdout = core" by (simp add: trim_core)
  with loop_skips [OF assms(5), of "[]"] show ?thesis by (simp add: parseResticSummary_def)
qed

theorem parseResticSummary_no_summary_witness:
  \<open>parseResticSummary JSON_parse [] = Inl (Error (js ''No summary found in restic output'')) \<and>
   parseResticSummary JSON_parse
     (js ''noise\<newline>{"message_type":"status"}\<newline>null\<newline>12\<newline>{"files_new":3}\<newline>'')
     = Inl (Error (js ''No summary found in restic output''))\<close>
proof -
  have e: "[] = [] @ [] @ ([] :: jsstring)" by simp
  have none: "\<forall>c \<in> set ([] :: jsstring). is_trim_space c" by simp
  have a: "\<forall>line \<in> set (split 0x0A []). \<not> summary_line JSON_parse line"
    by code_simp
  let ?core = \<open>js ''noise\<newline>{"message_type":"status"}\<newline>null\<newline>12\<newline>{"files_new":3}''\<close>
  have parts: \<open>js ''noise\<newline>{"message_type":"status"}\<newline>null\<newline>12\<newline>{"files_new":3}\<newline>''
      = [] @ ?core @ js ''\<newline>''\<close>
    by (simp add: js_def)
  have after: \<open>\<forall>c \<in> set (js ''\<newline>''). is_trim_space c\<close>
    by code_simp
  have ends: \<open>?core = [] \<or> (\<not> is_trim_space (hd ?core) \<and> \<not> is_trim_space (last ?core))\<close>
    by code_simp
  have b: \<open>\<forall>line \<in> set (split 0x0A ?core). \<not> summary_line JSON_parse line\<close>
    by code_simp
  from parseResticSummary_no_summary [OF e none none _ a]
    parseResticSummary_no_summary [OF parts none after ends b]
  show ?thesis by simp
qed

text \<open>An output of one line, a byte order mark followed by a summary record.
  \<^verbatim>\<open>JSON.parse\<close> rejects the line as it stands in the output, so no line of the
  output parses as a summary record; the function returns the record all the
  same, because the byte order mark is trimmed away first.\<close>

theorem parseResticSummary_no_summary_counterexample:
  \<open>split 0x0A (0xFEFF # js ''{"message_type":"summary"}'')
     = [0xFEFF # js ''{"message_type":"summary"}''] \<and>
   \<not> summary_line JSON_parse (0xFEFF # js ''{"message_type":"summary"}'') \<and>
   parseResticSummary JSON_parse (0xFEFF # js ''{"message_type":"summary"}'')
     = Inr (JObject [(js ''message_type'', JString (js ''summary''))]) \<and>
   parseResticSummary JSON_parse (0xFEFF # js ''{"message_type":"summary"}'')
     \<noteq> Inl (Error (js ''No summary found in restic output''))\<close>
  by code_simp

text \<open>
  C4, as the code has it. \<^verbatim>\<open>parseResticSummary\<close> trims the whole output, then
  reads the lines of the core (the output without the white space at its start
  and its end) in order, passes over every line that is not a summary record
  (malformed, or of another message type), and returns the first summary record:
  when the lines of the core before \<open>line\<close> are no summary records and \<open>line\<close>
  is one, the result is the value \<open>line\<close> parses to, whatever the lines before
  and after it are, further summary records among the later ones included.
\<close>

theorem parseResticSummary_first:
  assumes "stdout = before @ core @ after"
    and "\<forall>c \<in> set before. is_trim_space c"
    and "\<forall>c \<in> set after. is_trim_space c"
    and "core = [] \<or> (\<not> is_trim_space (hd core) \<and> \<not> is_trim_space (last core))"
    and "split 0x0A core = pre @ line # post"
    and "\<forall>l \<in> set pre. \<not> summary_line parse l"
    and "summary_line parse line"
  shows "\<exists>msg. parse line = Inr msg \<and> parseResticSummary parse stdout = Inr msg"
proof -
  from assms(1-4) have t: "trim stdout = core" by (simp add: trim_core)
  from assms(7) obtain msg where msg: "parse line = Inr msg"
    by (auto simp: summary_line_def split: sum.splits)
  from assms(7) have "parseResticSummary_loop parse (line # post) = parse line"
    by (rule loop_returns)
  with t assms(5) loop_skips [OF assms(6), of "line # post"] msg
  have "parseResticSummary parse stdout = Inr msg"
    by (simp add: parseResticSummary_def)
  with msg show ?thesis by blast
qed

theorem parseResticSummary_first_witness:
  \<open>parseResticSummary JSON_parse
     (js '' \<newline>noise\<newline>{"message_type":"status"}\<newline>{"message_type":"summary","files_new":3,"files_changed":1,"total_files_processed":10,"total_duration":1.25,"snapshot_id":"abc123"}\<newline>{"message_type":"summary","files_new":99}\<newline>trailing\<newline>'')
   = Inr (JObject
       [(js ''message_type'', JString (js ''summary'')),
        (js ''files_new'', JNumber (js ''3'')),
        (js ''files_changed'', JNumber (js ''1'')),
        (js ''total_files_processed'', JNumber (js ''10'')),
        (js ''total_duration'', JNumber (js ''1.25'')),
        (js ''snapshot_id'', JString (js ''abc123''))])\<close>
proof -
  let ?first = \<open>js ''{"message_type":"summary","files_new":3,"files_changed":1,"total_files_processed":10,"total_duration":1.25,"snapshot_id":"abc123"}''\<close>
  let ?pre = \<open>[js ''noise'', js ''{"message_type":"status"}'']\<close>
  let ?post = \<open>[js ''{"message_type":"summary","files_new":99}'', js ''trailing'']\<close>
  let ?core = \<open>js ''noise\<newline>{"message_type":"status"}\<newline>{"message_type":"summary","files_new":3,"files_changed":1,"total_files_processed":10,"total_duration":1.25,"snapshot_id":"abc123"}\<newline>{"message_type":"summary","files_new":99}\<newline>trailing''\<close>
  have parts: \<open>js '' \<newline>noise\<newline>{"message_type":"status"}\<newline>{"message_type":"summary","files_new":3,"files_changed":1,"total_files_processed":10,"total_duration":1.25,"snapshot_id":"abc123"}\<newline>{"message_type":"summary","files_new":99}\<newline>trailing\<newline>''
      = js '' \<newline>'' @ ?core @ js ''\<newline>''\<close>
    by (simp add: js_def)
  have before: \<open>\<forall>c \<in> set (js '' \<newline>''). is_trim_space c\<close>
    by code_simp
  have after: \<open>\<forall>c \<in> set (js ''\<newline>''). is_trim_space c\<close>
    by code_simp
  have ends: \<open>?core = [] \<or> (\<not> is_trim_space (hd ?core) \<and> \<not> is_trim_space (last ?core))\<close>
    by code_simp
  have lines: \<open>split 0x0A ?core = ?pre @ ?first # ?post\<close>
    by code_simp
  have noise: "\<forall>l \<in> set ?pre. \<not> summary_line JSON_parse l"
    by code_simp
  have summary: "summary_line JSON_parse ?first"
    by code_simp
  have parsed: \<open>JSON_parse ?first = Inr (JObject
       [(js ''message_type'', JString (js ''summary'')),
        (js ''files_new'', JNumber (js ''3'')),
        (js ''files_changed'', JNumber (js ''1'')),
        (js ''total_files_processed'', JNumber (js ''10'')),
        (js ''total_duration'', JNumber (js ''1.25'')),
        (js ''snapshot_id'', JString (js ''abc123''))])\<close>
    by code_simp
  from parseResticSummary_first [OF parts before after ends lines noise summary] obtain msg
    where "JSON_parse ?first = Inr msg"
      and result: \<open>parseResticSummary JSON_parse
     (js '' \<newline>noise\<newline>{"message_type":"status"}\<newline>{"message_type":"summary","files_new":3,"files_changed":1,"total_files_processed":10,"total_duration":1.25,"snapshot_id":"abc123"}\<newline>{"message_type":"summary","files_new":99}\<newline>trailing\<newline>'')
       = Inr msg\<close>
    by blast
  with parsed show ?thesis by simp
qed

text \<open>The first line of the output is a no-break space followed by a summary
  record, the second line is a summary record. As it stands in the output the
  first line is not well-formed JSON, yet it is not passed over: the no-break
  space is trimmed away, and the record returned is the one of the first line,
  not the one of the second.\<close>

theorem parseResticSummary_first_counterexample:
  \<open>split 0x0A (0xA0 # js ''{"message_type":"summary","n":1}\<newline>{"message_type":"summary","n":2}'')
     = [0xA0 # js ''{"message_type":"summary","n":1}'', js ''{"message_type":"summary","n":2}''] \<and>
   \<not> summary_line JSON_parse (0xA0 # js ''{"message_type":"summary","n":1}'') \<and>
   summary_line JSON_parse (js ''{"message_type":"summary","n":2}'') \<and>
   JSON_parse (js ''{"message_type":"summary","n":2}'')
     = Inr (JObject [(js ''message_type'', JString (js ''summary'')), (js ''n'', JNumber (js ''2''))]) \<and>
   parseResticSummary JSON_parse
     (0xA0 # js ''{"message_type":"summary","n":1}\<newline>{"message_type":"summary","n":2}'')
     = Inr (JObject [(js ''message_type'', JString (js ''summary'')), (js ''n'', JNumber (js ''1''))])\<close>
  by code_simp

text \<open>
  C9. For every output and every behaviour of the line parser,
  \<^verbatim>\<open>parseResticSummary\<close> ends in one of two ways: it returns a value whose
  \<^verbatim>\<open>message_type\<close> is "summary", or it throws "No summary found in restic
  output". A line on which the body of the \<^verbatim>\<open>try\<close> block throws (the text is
  no JSON, or it is \<^verbatim>\<open>null\<close>, whose property cannot be read) is passed over.
\<close>

theorem parseResticSummary_total:
  "((\<exists>msg. parseResticSummary parse stdout = Inr msg \<and>
        message_type msg = Inr (Some (JString (js ''summary'')))) \<or>
    parseResticSummary parse stdout = Inl (Error (js ''No summary found in restic output''))) \<and>
   (\<forall>line lines e. parseResticSummary_try parse line = Inl e \<longrightarrow>
      parseResticSummary_loop parse (line # lines) = parseResticSummary_loop parse lines)"
proof
  show "(\<exists>msg. parseResticSummary parse stdout = Inr msg \<and>
        message_type msg = Inr (Some (JString (js ''summary'')))) \<or>
    parseResticSummary parse stdout = Inl (Error (js ''No summary found in restic output''))"
    unfolding parseResticSummary_def Let_def by (rule loop_total)
  show "\<forall>line lines e. parseResticSummary_try parse line = Inl e \<longrightarrow>
      parseResticSummary_loop parse (line # lines) = parseResticSummary_loop parse lines"
    by simp
qed

theorem parseResticSummary_total_witness:
  \<open>parseResticSummary_try JSON_parse (js ''null'') = Inl TypeError \<and>
   parseResticSummary_try JSON_parse (js ''{"message_type":'') = Inl SyntaxError \<and>
   parseResticSummary_try JSON_parse (js ''12'') = Inr None \<and>
   parseResticSummary_loop JSON_parse [js ''null'', js ''{"message_type":'', js ''12'']
     = Inl (Error (js ''No summary found in restic output''))\<close>
proof -
  have n: \<open>parseResticSummary_try JSON_parse (js ''null'') = Inl TypeError\<close>
    by code_simp
  have b: \<open>parseResticSummary_try JSON_parse (js ''{"message_type":'') = Inl SyntaxError\<close>
    by code_simp
  have d: \<open>parseResticSummary_try JSON_parse (js ''12'') = Inr None\<close>
    by code_simp
  from parseResticSummary_total [of JSON_parse "[]"]
  have skip: "\<And>line lines e. parseResticSummary_try JSON_parse line = Inl e \<Longrightarrow>
      parseResticSummary_loop JSON_parse (line # lines) = parseResticSummary_loop JSON_parse lines"
    by blast
  have \<open>parseResticSummary_loop JSON_parse [js ''null'', js ''{"message_type":'', js ''12'']
      = parseResticSummary_loop JSON_parse [js ''{"message_type":'', js ''12'']\<close>
    using n by (rule skip)
  also have \<open>\<dots> = parseResticSummary_loop JSON_parse [js ''12'']\<close>
    using b by (rule skip)
  also have \<open>\<dots> = Inl (Error (js ''No summary found in restic output''))\<close>
    using d by simp
  finally show ?thesis using n b d by simp
qed

text \<open>
  C10. \<^verbatim>\<open>parseResticSummary\<close> does not look at the fields of the record it
  returns: the first line that parses to an object whose \<^verbatim>\<open>message_type\<close> is
  "summary" is returned as parsed, with exactly the members the line has,
  whether or not counts, duration or snapshot identifier are among them.
\<close>

theorem parseResticSummary_verbatim:
  assumes "split 0x0A (trim stdout) = pre @ line # post"
    and "\<forall>l \<in> set pre. \<not> summary_line parse l"
    and "parse line = Inr (JObject members)"
    and "own_property members (js ''message_type'') = Some (JString (js ''summary''))"
  shows "parseResticSummary parse stdout = Inr (JObject members)"
proof -
  from assms(3,4) have "summary_line parse line" by (simp add: summary_line_def)
  then have "parseResticSummary_loop parse (line # post) = parse line" by (rule loop_returns)
  with assms(1,3) loop_skips [OF assms(2), of "line # post"] show ?thesis
    by (simp add: parseResticSummary_def)
qed

theorem parseResticSummary_verbatim_witness:
  \<open>parseResticSummary JSON_parse (js ''{"message_type":"summary"}\<newline>'')
     = Inr (JObject [(js ''message_type'', JString (js ''summary''))]) \<and>
   parseResticSummary JSON_parse
     (js ''{"message_type":"status"}\<newline>{"message_type":"summary","note":["x",{"k":null}],"files_new":"many"}'')
     = Inr (JObject [(js ''message_type'', JString (js ''summary'')),
                     (js ''note'', JArray [JString (js ''x''), JObject [(js ''k'', JNull)]]),
                     (js ''files_new'', JString (js ''many''))])\<close>
proof -
  have l1: \<open>split 0x0A (trim (js ''{"message_type":"summary"}\<newline>''))
      = [] @ js ''{"message_type":"summary"}'' # []\<close>
    by code_simp
  have n1: "\<forall>l \<in> set []. \<not> summary_line JSON_parse l" by simp
  have p1: \<open>JSON_parse (js ''{"message_type":"summary"}'')
      = Inr (JObject [(js ''message_type'', JString (js ''summary''))])\<close>
    by code_simp
  have m1: \<open>own_property [(js ''message_type'', JString (js ''summary''))] (js ''message_type'')
      = Some (JString (js ''summary''))\<close>
    by code_simp
  have l2: \<open>split 0x0A (trim
     (js ''{"message_type":"status"}\<newline>{"message_type":"summary","note":["x",{"k":null}],"files_new":"many"}''))
      = [js ''{"message_type":"status"}''] @
        js ''{"message_type":"summary","note":["x",{"k":null}],"files_new":"many"}'' # []\<close>
    by code_simp
  have n2: \<open>\<forall>l \<in> set [js ''{"message_type":"status"}'']. \<not> summary_line JSON_parse l\<close>
    by code_simp
  have p2: \<open>JSON_parse (js ''{"message_type":"summary","note":["x",{"k":null}],"files_new":"many"}'')
      = Inr (JObject [(js ''message_type'', JString (js ''summary'')),
                     (js ''note'', JArray [JString (js ''x''), JObject [(js ''k'', JNull)]]),
                     (js ''files_new'', JString (js ''many''))])\<close>
    by code_simp
  have m2: \<open>own_property [(js ''message_type'', JString (js ''summary'')),
                     (js ''note'', JArray [JString (js ''x''), JObject [(js ''k'', JNull)]]),
                     (js ''files_new'', JString (js ''many''))] (js ''message_type'')
      = Some (JString (js ''summary''))\<close>
    by code_simp
  from parseResticSummary_verbatim [OF l1 n1 p1 m1] parseResticSummary_verbatim [OF l2 n2 p2 m2]
  show ?thesis by (rule conjI)
qed

section \<open>Claims about the backup run\<close>

text \<open>
  C1. With an empty repository setting, \<^verbatim>\<open>resticBackup\<close> throws the error
  "Restic repository not configured" and has started no child process before
  it: the list of \<^verbatim>\<open>execFile\<close> calls is the one it was called with.
\<close>

theorem resticBackup_unconfigured:
  assumes "resticRepository st = []"
  shows "resticBackup parse os st penv basePath calls =
           (Inl (Error (js ''Restic repository not configured'')), calls)"
  using assms by (simp add: resticBackup_def resticBackup_prepare_def)

theorem resticBackup_unconfigured_witness:
  \<open>resticBackup JSON_parse (os_printing (js ''{"message_type":"summary"}''))
     \<lparr>resticBinPath = Some (js ''/usr/bin/restic''), resticRepository = [],
      resticPasswordFile = js ''/home/me/.restic-password'', resticPasswordCommand = [],
      resticTags = js ''obsidian,notes''\<rparr>
     Map.empty (js ''/vault'') []
   = (Inl (Error (js ''Restic repository not configured'')), [])\<close>
  by (rule resticBackup_unconfigured) simp

lemma env_names_distinct:
  "js ''RESTIC_REPOSITORY'' \<noteq> js ''RESTIC_PASSWORD_FILE''"
  "js ''RESTIC_REPOSITORY'' \<noteq> js ''RESTIC_PASSWORD_COMMAND''"
  "js ''RESTIC_PASSWORD_FILE'' \<noteq> js ''RESTIC_PASSWORD_COMMAND''"
  by (simp_all add: js_def)

lemma resticBackup_calls:
  "resticRepository st \<noteq> [] \<Longrightarrow>
     snd (resticBackup parse os st penv basePath calls) =
       calls @ [\<lparr>exec_file = resticBinPath st,
                  exec_args = resticBackup_args st basePath,
                  exec_env = resticBackup_env st penv\<rparr>]"
  by (simp add: resticBackup_def resticBackup_prepare_def execFile_def Let_def
      split: sum.splits option.splits)

text \<open>
  C8. With a repository configured, \<^verbatim>\<open>resticBackup\<close> calls \<^verbatim>\<open>execFile\<close> once,
  and in the environment it hands over for the child \<^verbatim>\<open>RESTIC_REPOSITORY\<close> is
  the configured repository;
  \<^verbatim>\<open>RESTIC_PASSWORD_FILE\<close> is the configured password file when that is not
  empty, and is what \<^verbatim>\<open>process.env\<close> has (a value or none) when it is empty;
  the same holds for \<^verbatim>\<open>RESTIC_PASSWORD_COMMAND\<close> and the password command,
  each setting on its own, so both variables are set when both settings are;
  every other variable is as in \<^verbatim>\<open>process.env\<close>.
\<close>

theorem resticBackup_environment:
  assumes "resticRepository st \<noteq> []"
  shows "snd (resticBackup parse os st penv basePath calls) =
           calls @ [\<lparr>exec_file = resticBinPath st,
                      exec_args = resticBackup_args st basePath,
                      exec_env = resticBackup_env st penv\<rparr>] \<and>
         resticBackup_env st penv (js ''RESTIC_REPOSITORY'') = Some (Str (resticRepository st)) \<and>
         resticBackup_env st penv (js ''RESTIC_PASSWORD_FILE'') =
           (if resticPasswordFile st \<noteq> [] then Some (Str (resticPasswordFile st))
            else penv (js ''RESTIC_PASSWORD_FILE'')) \<and>
         resticBackup_env st penv (js ''RESTIC_PASSWORD_COMMAND'') =
           (if resticPasswordCommand st \<noteq> [] then Some (Str (resticPasswordCommand st))
            else penv (js ''RESTIC_PASSWORD_COMMAND'')) \<and>
         (\<forall>name. name \<noteq> js ''RESTIC_REPOSITORY'' \<and> name \<noteq> js ''RESTIC_PASSWORD_FILE'' \<and>
                 name \<noteq> js ''RESTIC_PASSWORD_COMMAND'' \<longrightarrow>
                 resticBackup_env st penv name = penv name)"
  using assms env_names_distinct
  by (simp add: resticBackup_calls resticBackup_env_def Let_def)

theorem resticBackup_environment_witness:
  \<open>resticBackup_env
     \<lparr>resticBinPath = Some (js ''/usr/bin/restic''), resticRepository = js ''/repo'',
      resticPasswordFile = js ''/pw'', resticPasswordCommand = js ''pass show restic'',
      resticTags = []\<rparr>
     [js ''HOME'' \<mapsto> Str (js ''/home/me'')] (js ''RESTIC_REPOSITORY'') = Some (Str (js ''/repo'')) \<and>
   resticBackup_env
     \<lparr>resticBinPath = Some (js ''/usr/bin/restic''), resticRepository = js ''/repo'',
      resticPasswordFile = js ''/pw'', resticPasswordCommand = js ''pass show restic'',
      resticTags = []\<rparr>
     [js ''HOME'' \<mapsto> Str (js ''/home/me'')] (js ''RESTIC_PASSWORD_FILE'') = Some (Str (js ''/pw'')) \<and>
   resticBackup_env
     \<lparr>resticBinPath = Some (js ''/usr/bin/restic''), resticRepository = js ''/repo'',
      resticPasswordFile = js ''/pw'', resticPasswordCommand = js ''pass show restic'',
      resticTags = []\<rparr>
     [js ''HOME'' \<mapsto> Str (js ''/home/me'')] (js ''RESTIC_PASSWORD_COMMAND'')
       = Some (Str (js ''pass show restic'')) \<and>
   resticBackup_env
     \<lparr>resticBinPath = Some (js ''/usr/bin/restic''), resticRepository = js ''/repo'',
      resticPasswordFile = js ''/pw'', resticPasswordCommand = js ''pass show restic'',
      resticTags = []\<rparr>
     [js ''HOME'' \<mapsto> Str (js ''/home/me'')] (js ''HOME'') = Some (Str (js ''/home/me''))\<close>
proof -
  let ?st = \<open>\<lparr>resticBinPath = Some (js ''/usr/bin/restic''), resticRepository = js ''/repo'',
      resticPasswordFile = js ''/pw'', resticPasswordCommand = js ''pass show restic'',
      resticTags = []\<rparr>\<close>
  have configured: "resticRepository ?st \<noteq> []" by (simp add: js_def)
  have other: \<open>js ''HOME'' \<noteq> js ''RESTIC_REPOSITORY'' \<and> js ''HOME'' \<noteq> js ''RESTIC_PASSWORD_FILE'' \<and>
     js ''HOME'' \<noteq> js ''RESTIC_PASSWORD_COMMAND''\<close>
    by (simp add: js_def)
  have pwfile: "resticPasswordFile ?st \<noteq> []" and pwcommand: "resticPasswordCommand ?st \<noteq> []"
    by (simp_all add: js_def)
  from resticBackup_environment [OF configured, of JSON_parse "os_printing []"
      \<open>[js ''HOME'' \<mapsto> Str (js ''/home/me'')]\<close> "js ''/vault''" "[]"] other pwfile pwcommand
  show ?thesis by simp
qed

lemma push_tags:
  "foldl (\<lambda>as tag. as @ [js ''--tag'', tag]) as tags =
     as @ concat (map (\<lambda>tag. [js ''--tag'', tag]) tags)"
  by (induction tags arbitrary: as) simp_all

text \<open>
  C5, as the code has it. The tag setting is split at its commas (the pieces,
  put together with commas, are the setting again, and no piece holds a comma),
  every piece is trimmed (white space is taken away at both ends and nowhere
  else), and every trimmed piece, the empty ones too, is appended in order as
  \<^verbatim>\<open>--tag\<close> followed by the piece. When the setting is empty no tag argument is
  appended. The setting \<^verbatim>\<open>"  a, b ,,c "\<close> gives the tags a, b, the empty string
  and c.
\<close>

theorem resticBackup_tag_arguments:
  "resticBackup_args st basePath =
     [js ''backup'', basePath, js ''--json'', js ''--skip-if-unchanged''] @
     concat (map (\<lambda>tag. [js ''--tag'', tag])
               (if resticTags st = [] then [] else map trim (split 0x2C (resticTags st)))) \<and>
   join 0x2C (split 0x2C (resticTags st)) = resticTags st \<and>
   (\<forall>piece \<in> set (split 0x2C (resticTags st)).
      0x2C \<notin> set piece \<and>
      (\<exists>before after. piece = before @ trim piece @ after \<and>
         (\<forall>c \<in> set before. is_trim_space c) \<and> (\<forall>c \<in> set after. is_trim_space c)) \<and>
      (trim piece = [] \<or>
         (\<not> is_trim_space (hd (trim piece)) \<and> \<not> is_trim_space (last (trim piece)))))"
proof -
  have "resticBackup_args st basePath =
     [js ''backup'', basePath, js ''--json'', js ''--skip-if-unchanged''] @
     concat (map (\<lambda>tag. [js ''--tag'', tag])
               (if resticTags st = [] then [] else map trim (split 0x2C (resticTags st))))"
    by (simp add: resticBackup_args_def resticBackup_tags_def push_tags Let_def split_not_Nil)
  moreover have "join 0x2C (split 0x2C (resticTags st)) = resticTags st"
    by (rule split_join)
  moreover have "\<forall>piece \<in> set (split 0x2C (resticTags st)). 0x2C \<notin> set piece"
    by (blast dest: split_pieces)
  moreover have "\<forall>piece. \<exists>before after. piece = before @ trim piece @ after \<and>
         (\<forall>c \<in> set before. is_trim_space c) \<and> (\<forall>c \<in> set after. is_trim_space c)"
    using trim_inside by blast
  moreover have "\<forall>piece. trim piece = [] \<or>
         (\<not> is_trim_space (hd (trim piece)) \<and> \<not> is_trim_space (last (trim piece)))"
    using trim_ends by blast
  ultimately show ?thesis by blast
qed

theorem resticBackup_tag_arguments_witness:
  \<open>resticBackup_args
     \<lparr>resticBinPath = Some (js ''/usr/bin/restic''), resticRepository = js ''/repo'',
      resticPasswordFile = [], resticPasswordCommand = [],
      resticTags = js ''  a, b ,,c ''\<rparr> (js ''/vault'')
   = [js ''backup'', js ''/vault'', js ''--json'', js ''--skip-if-unchanged'',
      js ''--tag'', js ''a'', js ''--tag'', js ''b'', js ''--tag'', [], js ''--tag'', js ''c'']\<close>
proof -
  let ?st = \<open>\<lparr>resticBinPath = Some (js ''/usr/bin/restic''), resticRepository = js ''/repo'',
      resticPasswordFile = [], resticPasswordCommand = [],
      resticTags = js ''  a, b ,,c ''\<rparr>\<close>
  have tags: \<open>(if resticTags ?st = [] then [] else map trim (split 0x2C (resticTags ?st)))
      = [js ''a'', js ''b'', [], js ''c'']\<close>
    by code_simp
  from resticBackup_tag_arguments [of ?st "js ''/vault''"]
  have "resticBackup_args ?st (js ''/vault'') =
     [js ''backup'', js ''/vault'', js ''--json'', js ''--skip-if-unchanged''] @
     concat (map (\<lambda>tag. [js ''--tag'', tag])
               (if resticTags ?st = [] then [] else map trim (split 0x2C (resticTags ?st))))"
    by (rule conjunct1)
  then show ?thesis unfolding tags by simp
qed

text \<open>The setting \<^verbatim>\<open>"  a, b ,,c "\<close> does not give the three tags a, b, c, and
  the arguments are not the four fixed ones followed by three tag flags.\<close>

theorem resticBackup_tags_counterexample:
  \<open>resticBackup_tags (js ''  a, b ,,c '') \<noteq> [js ''a'', js ''b'', js ''c''] \<and>
   resticBackup_args
     \<lparr>resticBinPath = Some (js ''/usr/bin/restic''), resticRepository = js ''/repo'',
      resticPasswordFile = [], resticPasswordCommand = [],
      resticTags = js ''  a, b ,,c ''\<rparr> (js ''/vault'')
   \<noteq> [js ''backup'', js ''/vault'', js ''--json'', js ''--skip-if-unchanged'',
      js ''--tag'', js ''a'', js ''--tag'', js ''b'', js ''--tag'', js ''c'']\<close>
  by code_simp

section \<open>Claims about the login shell's environment and the lookup\<close>

text \<open>
  What one line of the shell's output does to the environment object. A line
  \<open>key=rest\<close> stores under \<open>key\<close> the part of \<open>rest\<close> before its first
  \<^verbatim>\<open>=\<close>; a line without \<^verbatim>\<open>=\<close> that is not empty stores \<^verbatim>\<open>undefined\<close>
  under itself.
\<close>

lemma getShellEnv_line_assignment:
  assumes "0x3D \<notin> set key" and "key \<noteq> []" and "key \<noteq> js ''__proto__''"
  shows "getShellEnv_line e (key @ 0x3D # rest) =
           e(key \<mapsto> Str (takeWhile (\<lambda>c. c \<noteq> 0x3D) rest))"
proof -
  obtain p ps where ps: "split 0x3D rest = p # ps"
    using split_not_Nil [of "0x3D" rest] by (cases "split 0x3D rest") auto
  with hd_split [of "0x3D" rest] have "p = takeWhile (\<lambda>c. c \<noteq> 0x3D) rest" by simp
  with assms ps show ?thesis
    by (simp add: getShellEnv_line_def split_limit_def split_first)
qed

lemma getShellEnv_line_bare:
  assumes "0x3D \<notin> set key" and "key \<noteq> []" and "key \<noteq> js ''__proto__''"
  shows "getShellEnv_line e key = e(key \<mapsto> Undefined)"
  using assms by (simp add: getShellEnv_line_def split_limit_def split_no_sep)

text \<open>
  C6, at the inputs where the code leaves it. The value of
  \<^verbatim>\<open>LS_COLORS=rs=0:di=01;34\<close> is recorded as \<^verbatim>\<open>rs\<close>, not as everything after
  the first \<^verbatim>\<open>=\<close>; the line \<^verbatim>\<open>PATH\<close>, which has no \<^verbatim>\<open>=\<close>, is not skipped
  but replaces the value of \<^verbatim>\<open>PATH\<close> by \<^verbatim>\<open>undefined\<close>. A key with an empty
  value is recorded with the empty value.
\<close>

theorem getShellEnv_parse_failing:
  \<open>getShellEnv_parse (js ''LS_COLORS=rs=0:di=01;34'') (js ''LS_COLORS'') = Some (Str (js ''rs'')) \<and>
   getShellEnv_parse (js ''LS_COLORS=rs=0:di=01;34'') (js ''LS_COLORS'')
     \<noteq> Some (Str (js ''rs=0:di=01;34'')) \<and>
   getShellEnv_parse (js ''PATH=/bin\<newline>PATH'') (js ''PATH'') = Some Undefined \<and>
   getShellEnv_parse (js ''PATH=/bin\<newline>PATH'') (js ''PATH'') \<noteq> Some (Str (js ''/bin'')) \<and>
   getShellEnv_parse (js ''EMPTY='') (js ''EMPTY'') = Some (Str [])\<close>
  by code_simp

text \<open>
  C7, as the code has it. When \<^verbatim>\<open>getShellEnv\<close> fails, \<^verbatim>\<open>detectRestic\<close> fails
  with the same error and does not run the lookup. When \<^verbatim>\<open>getShellEnv\<close> has
  returned an environment, \<^verbatim>\<open>detectRestic\<close> does not fail: a lookup that is
  rejected gives \<^verbatim>\<open>null\<close>, a lookup whose trimmed output is empty gives
  \<^verbatim>\<open>null\<close>, and any other lookup gives its trimmed output.
\<close>

theorem detectRestic_outcomes:
  "(\<forall>e. fst (getShellEnv os penv calls) = Inl e \<longrightarrow>
        detectRestic os penv calls = (Inl e, snd (getShellEnv os penv calls))) \<and>
   (\<forall>shell_env. fst (getShellEnv os penv calls) = Inr shell_env \<longrightarrow>
      (\<forall>e. os (snd (getShellEnv os penv calls))
              \<lparr>exec_file = Some (js ''which''), exec_args = [js ''restic''], exec_env = shell_env\<rparr> = Inl e
          \<longrightarrow> fst (detectRestic os penv calls) = Inr None) \<and>
      (\<forall>stdout. os (snd (getShellEnv os penv calls))
              \<lparr>exec_file = Some (js ''which''), exec_args = [js ''restic''], exec_env = shell_env\<rparr> = Inr stdout
          \<longrightarrow> fst (detectRestic os penv calls) =
                Inr (if trim stdout = [] then None else Some (trim stdout))))"
proof -
  have w: "execFile_file_error (Some (js ''which'')) = None"
    by (simp add: execFile_file_error_def js_def)
  show ?thesis
    by (auto simp: detectRestic_def execFile_def w Let_def split: prod.splits sum.splits)
qed

theorem detectRestic_outcomes_witness:
  \<open>fst (detectRestic (os_without_restic (js ''PATH=/bin\<newline>''))
          [js ''SHELL'' \<mapsto> Str (js ''/bin/sh'')] []) = Inr None \<and>
   fst (detectRestic (os_printing (js '' \<newline>''))
          [js ''SHELL'' \<mapsto> Str (js ''/bin/sh'')] []) = Inr None \<and>
   fst (detectRestic (os_printing (js ''/usr/bin/restic\<newline>''))
          [js ''SHELL'' \<mapsto> Str (js ''/bin/sh'')] []) = Inr (Some (js ''/usr/bin/restic'')) \<and>
   detectRestic (os_printing (js ''/usr/bin/restic\<newline>'')) [js ''SHELL'' \<mapsto> Str []] []
     = (Inl (Error (js ''SHELL environment variable is set'')), [])\<close>
proof -
  let ?penv = \<open>[js ''SHELL'' \<mapsto> Str (js ''/bin/sh'')]\<close>
  let ?sh = \<open>\<lparr>exec_file = Some (js ''/bin/sh''), exec_args = [js ''-l'', js ''-c'', js ''env''],
               exec_env = ?penv\<rparr>\<close>
  have shell: "js ''/bin/sh'' \<noteq> []" by (simp add: js_def)
  have which: "exec_file ?sh \<noteq> Some (js ''which'')" by (simp add: js_def)
  have accepted: \<open>execFile_file_error (Some (js ''/bin/sh'')) = None\<close>
    by (simp add: execFile_file_error_def js_def)
  have g1: \<open>getShellEnv (os_without_restic (js ''PATH=/bin\<newline>'')) ?penv []
      = (Inr (getShellEnv_parse (js ''PATH=/bin\<newline>'')), [?sh])\<close>
    using shell which accepted
    by (simp add: getShellEnv_def assert_def execFile_def os_without_restic_def)
  have w1: \<open>os_without_restic (js ''PATH=/bin\<newline>'') [?sh]
      \<lparr>exec_file = Some (js ''which''), exec_args = [js ''restic''],
        exec_env = getShellEnv_parse (js ''PATH=/bin\<newline>'')\<rparr> = Inl ChildProcessError\<close>
    by (simp add: os_without_restic_def)
  have r1: \<open>fst (detectRestic (os_without_restic (js ''PATH=/bin\<newline>'')) ?penv []) = Inr None\<close>
    using detectRestic_outcomes [of "os_without_restic (js ''PATH=/bin\<newline>'')" ?penv "[]"] g1 w1
    by simp
  have g2: \<open>getShellEnv (os_printing (js '' \<newline>'')) ?penv []
      = (Inr (getShellEnv_parse (js '' \<newline>'')), [?sh])\<close>
    using shell accepted by (simp add: getShellEnv_def assert_def execFile_def os_printing_def)
  have t2: \<open>trim (js '' \<newline>'') = []\<close> by code_simp
  have r2: \<open>fst (detectRestic (os_printing (js '' \<newline>'')) ?penv []) = Inr None\<close>
    using detectRestic_outcomes [of "os_printing (js '' \<newline>'')" ?penv "[]"] g2 t2
    by (simp add: os_printing_def)
  have g3: \<open>getShellEnv (os_printing (js ''/usr/bin/restic\<newline>'')) ?penv []
      = (Inr (getShellEnv_parse (js ''/usr/bin/restic\<newline>'')), [?sh])\<close>
    using shell accepted by (simp add: getShellEnv_def assert_def execFile_def os_printing_def)
  have t3: \<open>trim (js ''/usr/bin/restic\<newline>'') = js ''/usr/bin/restic''\<close> by code_simp
  have n3: \<open>js ''/usr/bin/restic'' \<noteq> []\<close> by (simp add: js_def)
  have r3: \<open>fst (detectRestic (os_printing (js ''/usr/bin/restic\<newline>'')) ?penv [])
      = Inr (Some (js ''/usr/bin/restic''))\<close>
    using detectRestic_outcomes [of "os_printing (js ''/usr/bin/restic\<newline>'')" ?penv "[]"] g3 t3 n3
    by (simp add: os_printing_def)
  have g4: \<open>getShellEnv (os_printing (js ''/usr/bin/restic\<newline>'')) [js ''SHELL'' \<mapsto> Str []] []
      = (Inl (Error (js ''SHELL environment variable is set'')), [])\<close>
    by (simp add: getShellEnv_def assert_def)
  have r4: \<open>detectRestic (os_printing (js ''/usr/bin/restic\<newline>'')) [js ''SHELL'' \<mapsto> Str []] []
     = (Inl (Error (js ''SHELL environment variable is set'')), [])\<close>
    using detectRestic_outcomes [of "os_printing (js ''/usr/bin/restic\<newline>'')"
        \<open>[js ''SHELL'' \<mapsto> Str []]\<close> "[]"] g4
    by simp
  from r1 r2 r3 r4 show ?thesis by blast
qed

text \<open>Without \<^verbatim>\<open>SHELL\<close> in the environment, and with a login shell that fails,
  \<^verbatim>\<open>detectRestic\<close> throws; the result is not \<^verbatim>\<open>null\<close>.\<close>

theorem detectRestic_counterexample:
  \<open>detectRestic (os_printing (js ''/usr/bin/restic'')) Map.empty []
     = (Inl (Error (js ''SHELL environment variable is set'')), []) \<and>
   fst (detectRestic (os_printing (js ''/usr/bin/restic'')) Map.empty []) \<noteq> Inr None \<and>
   fst (detectRestic os_failing [js ''SHELL'' \<mapsto> Str (js ''/bin/sh'')] []) = Inl ChildProcessError \<and>
   fst (detectRestic os_failing [js ''SHELL'' \<mapsto> Str (js ''/bin/sh'')] []) \<noteq> Inr None\<close>
  by (simp add: detectRestic_def getShellEnv_def assert_def execFile_def execFile_file_error_def
      os_failing_def js_def)

section \<open>Claims about overlapping runs\<close>







end
